theory Spec2Isabelle
  imports Main "HOL-Library.Log_Nat"
begin

section \<open>Python values used by the booking system\<close>

subsection \<open>Text\<close>

text \<open>
  A Python \<open>str\<close> is a sequence of code points; here it is a \<open>string\<close>, one
  \<open>char\<close> per code point, for code points below 256. The methods \<open>strip\<close>,
  \<open>upper\<close> and \<open>lower\<close> are those of Python on the ASCII range: white space is
  the ASCII characters for which \<open>str.isspace\<close> holds (9 to 13, 28 to 32), and only
  the letters a to z and A to Z change case.
\<close>

type_synonym str = string

definition isspace :: "char \<Rightarrow> bool" where
  "isspace c = ((9 \<le> (of_char c :: nat) \<and> (of_char c :: nat) \<le> 13)
              \<or> (28 \<le> (of_char c :: nat) \<and> (of_char c :: nat) \<le> 32))"

definition strip :: "str \<Rightarrow> str" where
  "strip s = rev (dropWhile isspace (rev (dropWhile isspace s)))"

definition islower :: "char \<Rightarrow> bool" where
  "islower c = (97 \<le> (of_char c :: nat) \<and> (of_char c :: nat) \<le> 122)"

definition isupper :: "char \<Rightarrow> bool" where
  "isupper c = (65 \<le> (of_char c :: nat) \<and> (of_char c :: nat) \<le> 90)"

definition upper_char :: "char \<Rightarrow> char" where
  "upper_char c = (if islower c then char_of ((of_char c :: nat) - 32) else c)"

definition lower_char :: "char \<Rightarrow> char" where
  "lower_char c = (if isupper c then char_of ((of_char c :: nat) + 32) else c)"

definition upper :: "str \<Rightarrow> str" where
  "upper s = map upper_char s"

definition lower :: "str \<Rightarrow> str" where
  "lower s = map lower_char s"

subsection \<open>Floating point numbers\<close>

text \<open>
  A Python \<open>float\<close> is an IEEE 754 binary64 number: a finite value (a rational
  \<open>m * 2 ^ e\<close> with a 53 bit significand), an infinity or a NaN. The sign of a
  zero is not kept: the program only multiplies, compares with zero and truncates
  with \<open>int\<close>, and none of these tells the two zeros apart in what it prints.
\<close>

datatype pyfloat = Finite rat | Inf bool | NaN

text \<open>The integer part of the binary logarithm of a positive rational.\<close>

definition ilog2 :: "rat \<Rightarrow> int" where
  "ilog2 a = (let (n, d) = quotient_of a; e0 = bitlen n - bitlen d
              in if 2 powi e0 \<le> a then e0 else e0 - 1)"

text \<open>Rounding to the nearest integer, a tie going to the even one.\<close>

definition round_half_even :: "rat \<Rightarrow> int" where
  "round_half_even x = (let n = \<lfloor>x\<rfloor>; r = x - of_int n
                        in if r < 1 / 2 then n
                           else if 1 / 2 < r then n + 1
                           else if even n then n else n + 1)"

text \<open>
  Rounding a rational to binary64, to nearest with ties to even: the unit in the
  last place is \<open>2 ^ (e - 52)\<close> for a value in \<open>[2 ^ e, 2 ^ (e + 1))\<close>, with
  \<open>e\<close> no less than \<open>-1022\<close> (below that the numbers are subnormal), and a result
  of \<open>2 ^ 1024\<close> or more is an infinity.
\<close>

definition round64 :: "rat \<Rightarrow> pyfloat" where
  "round64 q =
     (if q = 0 then Finite 0
      else let a = \<bar>q\<bar>;
               e = max (ilog2 a) (- 1022);
               u = 2 powi (e - 52);
               r = of_int (round_half_even (a / u)) * u
           in if 2 powi 1024 \<le> r then Inf (q < 0)
              else Finite (if q < 0 then - r else r))"

text \<open>The product \<open>x * y\<close> of two floats.\<close>

fun fmul :: "pyfloat \<Rightarrow> pyfloat \<Rightarrow> pyfloat" where
  "fmul NaN _ = NaN"
| "fmul _ NaN = NaN"
| "fmul (Finite a) (Finite b) = round64 (a * b)"
| "fmul (Finite a) (Inf s) = (if a = 0 then NaN else Inf (s \<noteq> (a < 0)))"
| "fmul (Inf s) (Finite b) = (if b = 0 then NaN else Inf (s \<noteq> (b < 0)))"
| "fmul (Inf s) (Inf t) = Inf (s \<noteq> t)"

text \<open>A decimal literal such as \<open>0.8\<close> denotes the float nearest to it.\<close>

definition lit_0_8 :: pyfloat where "lit_0_8 = round64 (8 / 10)"
definition lit_1_3 :: pyfloat where "lit_1_3 = round64 (13 / 10)"
definition lit_0_7 :: pyfloat where "lit_0_7 = round64 (7 / 10)"

text \<open>The comparison \<open>x <= 0\<close>; every comparison with a NaN is false.\<close>

fun le_zero :: "pyfloat \<Rightarrow> bool" where
  "le_zero (Finite a) = (a \<le> 0)"
| "le_zero (Inf s) = s"
| "le_zero NaN = False"

text \<open>
  The exceptions the program can raise. \<open>int(x)\<close> of a float truncates towards
  zero, and raises \<open>ValueError\<close> for a NaN and \<open>OverflowError\<close> for an infinity.
\<close>

datatype kivetel =
    ValueError_jaratszam_letezik str
  | ValueError_nan
  | ValueError_int
  | OverflowError_inf
  | IndexError

fun is_ValueError :: "kivetel \<Rightarrow> bool" where
  "is_ValueError (ValueError_jaratszam_letezik _) = True"
| "is_ValueError ValueError_nan = True"
| "is_ValueError ValueError_int = True"
| "is_ValueError OverflowError_inf = False"
| "is_ValueError IndexError = False"

fun py_int :: "pyfloat \<Rightarrow> kivetel + int" where
  "py_int (Finite a) = Inr (if 0 \<le> a then \<lfloor>a\<rfloor> else \<lceil>a\<rceil>)"
| "py_int (Inf _) = Inl OverflowError_inf"
| "py_int NaN = Inl ValueError_nan"

subsection \<open>Dates\<close>

text \<open>
  A naive \<open>datetime\<close> is its seven components, compared lexicographically.
\<close>

datatype datetime = Datetime nat nat nat nat nat nat nat

fun dt_fields :: "datetime \<Rightarrow> nat list" where
  "dt_fields (Datetime y mo d h mi s us) = [y, mo, d, h, mi, s, us]"

fun lex_less :: "nat list \<Rightarrow> nat list \<Rightarrow> bool" where
  "lex_less (x # xs) (y # ys) = (x < y \<or> (x = y \<and> lex_less xs ys))"
| "lex_less _ _ = False"

definition dt_less :: "datetime \<Rightarrow> datetime \<Rightarrow> bool" where
  "dt_less a b = lex_less (dt_fields a) (dt_fields b)"


section \<open>The domain model\<close>

subsection \<open>Flights\<close>

datatype JaratStatusz = AKTIV | INAKTIV

text \<open>
  The two concrete subclasses of the abstract class \<open>Jarat\<close>. Where two classes
  have an attribute of the same name, the later record's field carries a prefix
  (\<open>j_legitarsasag\<close> of a flight, \<open>f_jaratszam\<close>, \<open>f_celallomas\<close>, \<open>f_datum\<close>
  and \<open>f_statusz\<close> of a booking).
\<close>

datatype JaratOsztaly = BelfoldiJarat | NemzetkoziJarat

record Jarat =
  jaratszam :: str
  indulo_repter :: str
  celallomas :: str
  jegyar :: pyfloat
  j_legitarsasag :: str
  datum :: datetime
  statusz :: JaratStatusz
  osztaly :: JaratOsztaly
  repulesi_ido :: nat

text \<open>
  \<open>Jarat.__init__\<close>: \<open>now\<close> is what \<open>datetime.now()\<close> returns at the
  construction; the status is \<open>AKTIV\<close> when \<open>datum > now\<close>.
\<close>

definition Jarat_init ::
  "str \<Rightarrow> str \<Rightarrow> str \<Rightarrow> pyfloat \<Rightarrow> str \<Rightarrow> datetime \<Rightarrow> datetime \<Rightarrow> JaratOsztaly \<Rightarrow> nat \<Rightarrow> Jarat" where
  "Jarat_init jsz indulo cel ar legi d now oszt ido =
     \<lparr> jaratszam = jsz, indulo_repter = indulo, celallomas = cel, jegyar = ar,
       j_legitarsasag = legi, datum = d,
       statusz = (if dt_less now d then AKTIV else INAKTIV),
       osztaly = oszt, repulesi_ido = ido \<rparr>"

definition BelfoldiJarat_init ::
  "str \<Rightarrow> str \<Rightarrow> str \<Rightarrow> pyfloat \<Rightarrow> str \<Rightarrow> datetime \<Rightarrow> datetime \<Rightarrow> Jarat" where
  "BelfoldiJarat_init jsz indulo cel ar legi d now =
     Jarat_init jsz indulo cel (fmul ar lit_0_8) legi d now BelfoldiJarat 2"

definition NemzetkoziJarat_init ::
  "str \<Rightarrow> str \<Rightarrow> str \<Rightarrow> pyfloat \<Rightarrow> str \<Rightarrow> datetime \<Rightarrow> datetime \<Rightarrow> Jarat" where
  "NemzetkoziJarat_init jsz indulo cel ar legi d now =
     Jarat_init jsz indulo cel (fmul ar lit_1_3) legi d now NemzetkoziJarat 8"

fun get_jarat_tipus :: "Jarat \<Rightarrow> str" where
  "get_jarat_tipus j =
     (case osztaly j of
        BelfoldiJarat \<Rightarrow> ''Belf'' @ [CHR 0xF6] @ ''ldi''
      | NemzetkoziJarat \<Rightarrow> ''Nemzetk'' @ [CHR 0xF6] @ ''zi'')"

text \<open>
  \<open>Jarat.__str__\<close>: the printed line is kept as its parts (status, number, route,
  type, date, price); \<open>int(self.jegyar)\<close> raises for a price that is not finite.
\<close>

type_synonym jarat_sor = "JaratStatusz \<times> str \<times> str \<times> str \<times> str \<times> datetime \<times> int"

definition Jarat_str :: "Jarat \<Rightarrow> kivetel + jarat_sor" where
  "Jarat_str j =
     (case py_int (jegyar j) of
        Inl e \<Rightarrow> Inl e
      | Inr n \<Rightarrow> Inr (statusz j, jaratszam j, indulo_repter j, celallomas j,
                       get_jarat_tipus j, datum j, n))"

subsection \<open>The airline\<close>

record Legitarsasag =
  nev :: str
  jaratok :: "Jarat list"

definition Legitarsasag_init :: "str \<Rightarrow> Legitarsasag" where
  "Legitarsasag_init n = \<lparr> nev = n, jaratok = [] \<rparr>"

text \<open>
  \<open>jarat_hozzaadasa\<close> raises \<open>ValueError\<close> before it touches the list, so the
  airline is as it was when the result is an exception.
\<close>

definition jarat_hozzaadasa :: "Legitarsasag \<Rightarrow> Jarat \<Rightarrow> kivetel + Legitarsasag" where
  "jarat_hozzaadasa self jarat =
     (if list_ex (\<lambda>j. jaratszam j = jaratszam jarat) (jaratok self)
      then Inl (ValueError_jaratszam_letezik (jaratszam jarat))
      else Inr (self\<lparr> jaratok := jaratok self @ [jarat] \<rparr>))"

fun keres_jaratszam :: "Jarat list \<Rightarrow> str \<Rightarrow> Jarat option" where
  "keres_jaratszam [] jsz = None"
| "keres_jaratszam (j # js) jsz = (if jaratszam j = jsz then Some j else keres_jaratszam js jsz)"

definition get_jarat_by_jaratszam :: "Legitarsasag \<Rightarrow> str \<Rightarrow> Jarat option" where
  "get_jarat_by_jaratszam self jsz = keres_jaratszam (jaratok self) jsz"

subsection \<open>Bookings\<close>

text \<open>
  The random number generator is an unknown sequence of draws: \<open>rnd n\<close> is the
  \<open>n\<close>-th one, and \<open>random.choices\<close> picks the element of the population at
  that draw's index.
\<close>

type_synonym veletlen = "nat \<Rightarrow> nat"

definition random_choices :: "'a list \<Rightarrow> nat \<Rightarrow> veletlen \<Rightarrow> nat \<Rightarrow> 'a list" where
  "random_choices population k rnd pos =
     map (\<lambda>i. population ! (rnd (pos + i) mod length population)) [0..<k]"

definition ascii_uppercase :: str where
  "ascii_uppercase = ''ABCDEFGHIJKLMNOPQRSTUVWXYZ''"

definition digits :: str where
  "digits = ''0123456789''"

definition generate_foglalas_id :: "veletlen \<Rightarrow> nat \<Rightarrow> str" where
  "generate_foglalas_id rnd pos =
     (let betuk = random_choices ascii_uppercase 2 rnd pos;
          szamok = random_choices digits 3 rnd (pos + 2)
      in betuk @ szamok)"

datatype FoglalasStatusz = Aktiv | Lemondva

record JegyFoglalas =
  foglalas_id :: str
  f_jaratszam :: str
  indulo :: str
  f_celallomas :: str
  f_datum :: datetime
  utas_nev :: str
  ar :: pyfloat
  f_statusz :: FoglalasStatusz

text \<open>
  \<open>JegyFoglalas.__init__\<close> copies the flight's fields; the identifier uses the
  five draws from \<open>pos\<close> on.
\<close>

definition JegyFoglalas_init :: "Jarat \<Rightarrow> str \<Rightarrow> veletlen \<Rightarrow> nat \<Rightarrow> JegyFoglalas" where
  "JegyFoglalas_init jarat utas rnd pos =
     \<lparr> foglalas_id = generate_foglalas_id rnd pos,
       f_jaratszam = jaratszam jarat,
       indulo = indulo_repter jarat,
       f_celallomas = celallomas jarat,
       f_datum = datum jarat,
       utas_nev = utas,
       ar = jegyar jarat,
       f_statusz = Aktiv \<rparr>"

type_synonym foglalas_sor = "str \<times> str \<times> str \<times> str \<times> str \<times> datetime \<times> int \<times> FoglalasStatusz"

definition JegyFoglalas_str :: "JegyFoglalas \<Rightarrow> kivetel + foglalas_sor" where
  "JegyFoglalas_str f =
     (case py_int (ar f) of
        Inl e \<Rightarrow> Inl e
      | Inr n \<Rightarrow> Inr (foglalas_id f, utas_nev f, f_jaratszam f, indulo f, f_celallomas f,
                       f_datum f, n, f_statusz f))"


subsection \<open>The booking system\<close>

record Rendszer =
  legitarsasag :: "Legitarsasag option"
  foglalasok :: "JegyFoglalas list"
  existing_foglalas_ids :: "str set"

definition Rendszer_init :: Rendszer where
  "Rendszer_init = \<lparr> legitarsasag = None, foglalasok = [], existing_foglalas_ids = {} \<rparr>"

text \<open>
  What an operation prints, one constructor for each message. \<open>Osszeomlas\<close> is an
  exception that no handler catches: it leaves the menu loop and ends the program.
\<close>

datatype kimenet =
    NincsElerhetoJarat
  | NincsAktivJarat
  | ErvenytelenValasztas
  | DatumElmult
  | NevTulRovid
  | FoglalasLetrehozva str int
  | ErvenytelenBemenet
  | HibaTortent kivetel
  | NincsFoglalas
  | LemondasSikeres pyfloat int
  | LemondasMegszakitva
  | NemTalalhato
  | FoglalasLista "foglalas_sor list" "foglalas_sor list"
  | NincsJarat
  | JaratLista "jarat_sor list"
  | NincsLegitarsasag
  | ArNemPozitiv
  | ErvenytelenAr
  | ErvenytelenDatum
  | ErvenytelenJarattipus
  | JaratHozzaadva jarat_sor
  | Hiba kivetel
  | VaratlanHiba kivetel
  | Allapot "(str \<times> nat \<times> nat \<times> nat \<times> nat) option" nat nat nat
  | Kilepes
  | ErvenytelenMenu
  | Osszeomlas kivetel

text \<open>Printing a list of objects, one after the other; the first exception ends it.\<close>

fun mind_str :: "('a \<Rightarrow> kivetel + 'b) \<Rightarrow> 'a list \<Rightarrow> kivetel + 'b list" where
  "mind_str f [] = Inr []"
| "mind_str f (x # xs) =
     (case f x of
        Inl e \<Rightarrow> Inl e
      | Inr y \<Rightarrow> (case mind_str f xs of Inl e \<Rightarrow> Inl e | Inr ys \<Rightarrow> Inr (y # ys)))"

text \<open>
  \<open>_init_test_adatok\<close>. The three flights are constructed at the clock readings
  \<open>now1\<close>, \<open>now2\<close> and \<open>now3\<close>; the six bookings take the draws from 0, 5, 10, 15,
  20 and 25 on. The identifiers of the bookings are put into the set as they are.
\<close>

definition elem :: "'a list \<Rightarrow> nat \<Rightarrow> kivetel + 'a" where
  "elem xs i = (if i < length xs then Inr (xs ! i) else Inl IndexError)"

definition init_test_adatok ::
  "Rendszer \<Rightarrow> veletlen \<Rightarrow> datetime \<Rightarrow> datetime \<Rightarrow> datetime \<Rightarrow> kivetel + Rendszer" where
  "init_test_adatok self rnd now1 now2 now3 =
     (case jarat_hozzaadasa (Legitarsasag_init ''Wizz Air Hungary'')
             (BelfoldiJarat_init ''WIZ001'' ''Budapest'' ''Debrecen'' (Finite 15000)
                ''Wizz Air'' (Datetime 2023 1 1 0 0 0 0) now1) of
        Inl e \<Rightarrow> Inl e
      | Inr l1 \<Rightarrow>
     (case jarat_hozzaadasa l1
             (BelfoldiJarat_init ''WIZ102'' ''Budapest'' ''Szeged'' (Finite 20000)
                ''Wizz Air'' (Datetime 2025 6 10 0 0 0 0) now2) of
        Inl e \<Rightarrow> Inl e
      | Inr l2 \<Rightarrow>
     (case jarat_hozzaadasa l2
             (NemzetkoziJarat_init ''WIZ201'' ''Budapest'' ''London'' (Finite 50000)
                ''Wizz Air'' (Datetime 2025 6 15 0 0 0 0) now3) of
        Inl e \<Rightarrow> Inl e
      | Inr l3 \<Rightarrow>
     (case elem (jaratok l3) 1 of
        Inl e \<Rightarrow> Inl e
      | Inr j1 \<Rightarrow>
     (case elem (jaratok l3) 2 of
        Inl e \<Rightarrow> Inl e
      | Inr j2 \<Rightarrow>
        (let fs = foglalasok self @
               [JegyFoglalas_init j1 (''Nagy J'' @ [CHR 0xE1] @ ''nos'') rnd 0,
                JegyFoglalas_init j1 (''Kov'' @ [CHR 0xE1] @ ''cs B'' @ [CHR 0xE9] @ ''la'') rnd 5,
                JegyFoglalas_init j2 (''Szab'' @ [CHR 0xF3, CHR 0x20, CHR 0xC9] @ ''va'') rnd 10,
                JegyFoglalas_init j2 (''Kiss Zolt'' @ [CHR 0xE1] @ ''n'') rnd 15,
                JegyFoglalas_init j2 (''T'' @ [CHR 0xF3] @ ''th M'' @ [CHR 0xE1] @ ''ria'') rnd 20,
                JegyFoglalas_init j2 (''Horv'' @ [CHR 0xE1] @ ''th P'' @ [CHR 0xE9] @ ''ter'') rnd 25]
         in Inr (self\<lparr> legitarsasag := Some l3,
                         foglalasok := fs,
                         existing_foglalas_ids :=
                           fold (\<lambda>f ids. insert (foglalas_id f) ids) fs
                             (existing_foglalas_ids self) \<rparr>)))))))"

text \<open>
  \<open>jegy_foglalas\<close>. \<open>valasztas_be\<close> is what \<open>int(input(...))\<close> gives (\<open>None\<close>
  when it raises \<open>ValueError\<close>), \<open>nev_be\<close> the line entered for the name, \<open>now\<close>
  the clock at the date check. The list of the active flights is printed before the
  \<open>try\<close>, so an exception there is not caught; inside the \<open>try\<close> a \<open>ValueError\<close>
  and any other exception have a handler each.
\<close>

definition kezel :: "kivetel \<Rightarrow> kimenet" where
  "kezel e = (if is_ValueError e then ErvenytelenBemenet else HibaTortent e)"

text \<open>
  The loop \<open>while foglalas.foglalas_id in self.existing_foglalas_ids\<close>: each turn
  constructs a booking anew, from the next five draws. It need not end.
\<close>

partial_function (option) ujra_general ::
  "str set \<Rightarrow> Jarat \<Rightarrow> str \<Rightarrow> veletlen \<Rightarrow> nat \<Rightarrow> JegyFoglalas \<Rightarrow> JegyFoglalas option" where
  "ujra_general ids jarat utas rnd pos foglalas =
     (if foglalas_id foglalas \<in> ids
      then ujra_general ids jarat utas rnd (pos + 5) (JegyFoglalas_init jarat utas rnd pos)
      else Some foglalas)"

definition jegy_foglalas ::
  "Rendszer \<Rightarrow> int option \<Rightarrow> str \<Rightarrow> datetime \<Rightarrow> veletlen \<Rightarrow> (kimenet \<times> Rendszer) option" where
  "jegy_foglalas self valasztas_be nev_be now rnd =
     (case legitarsasag self of
        None \<Rightarrow> Some (NincsElerhetoJarat, self)
      | Some l \<Rightarrow>
        if jaratok l = [] then Some (NincsElerhetoJarat, self)
        else
          let aktiv_jaratok = filter (\<lambda>j. statusz j = AKTIV) (jaratok l) in
          if aktiv_jaratok = [] then Some (NincsAktivJarat, self)
          else
            (case mind_str Jarat_str aktiv_jaratok of
               Inl e \<Rightarrow> Some (Osszeomlas e, self)
             | Inr _ \<Rightarrow>
            (case valasztas_be of
               None \<Rightarrow> Some (ErvenytelenBemenet, self)
             | Some valasztas \<Rightarrow>
               if valasztas < 1 \<or> valasztas > int (length aktiv_jaratok)
               then Some (ErvenytelenValasztas, self)
               else
                 let kivalasztott_jarat = aktiv_jaratok ! nat (valasztas - 1) in
                 (case py_int (jegyar kivalasztott_jarat) of
                    Inl e \<Rightarrow> Some (kezel e, self)
                  | Inr _ \<Rightarrow>
                    if dt_less (datum kivalasztott_jarat) now then Some (DatumElmult, self)
                    else
                      let utas = strip nev_be in
                      if length utas < 2 then Some (NevTulRovid, self)
                      else
                        (case ujra_general (existing_foglalas_ids self) kivalasztott_jarat utas
                                rnd 5 (JegyFoglalas_init kivalasztott_jarat utas rnd 0) of
                           None \<Rightarrow> None
                         | Some foglalas \<Rightarrow>
                             let self' = self\<lparr>
                                   foglalasok := foglalasok self @ [foglalas],
                                   existing_foglalas_ids :=
                                     insert (foglalas_id foglalas) (existing_foglalas_ids self) \<rparr>
                             in (case py_int (ar foglalas) of
                                   Inl e \<Rightarrow> Some (kezel e, self')
                                 | Inr n \<Rightarrow>
                                     Some (FoglalasLetrehozva (foglalas_id foglalas) n, self')))))))"


text \<open>
  \<open>foglalas_lemondasa\<close>. \<open>id_be\<close> and \<open>megerosites_be\<close> are the two lines
  entered. The loop over the bookings stops at the first one that has the identifier
  and is active; printing it is outside any \<open>try\<close>. The status is set before the
  refund is computed and printed.
\<close>

fun lemondas_ciklus :: "str \<Rightarrow> str \<Rightarrow> JegyFoglalas list \<Rightarrow> kimenet \<times> JegyFoglalas list" where
  "lemondas_ciklus fid megerosites_be [] = (NemTalalhato, [])"
| "lemondas_ciklus fid megerosites_be (foglalas # fs) =
     (if foglalas_id foglalas = fid \<and> f_statusz foglalas = Aktiv then
        (case JegyFoglalas_str foglalas of
           Inl e \<Rightarrow> (Osszeomlas e, foglalas # fs)
         | Inr _ \<Rightarrow>
             if lower (strip megerosites_be) = ''i'' then
               (let foglalas' = foglalas\<lparr> f_statusz := Lemondva \<rparr>;
                    visszaterites = fmul (ar foglalas') lit_0_7
                in case py_int visszaterites of
                     Inl e \<Rightarrow> (Osszeomlas e, foglalas' # fs)
                   | Inr n \<Rightarrow> (LemondasSikeres visszaterites n, foglalas' # fs))
             else (LemondasMegszakitva, foglalas # fs))
      else
        (case lemondas_ciklus fid megerosites_be fs of
           (k, fs') \<Rightarrow> (k, foglalas # fs')))"

definition foglalas_lemondasa :: "Rendszer \<Rightarrow> str \<Rightarrow> str \<Rightarrow> kimenet \<times> Rendszer" where
  "foglalas_lemondasa self id_be megerosites_be =
     (if foglalasok self = [] then (NincsFoglalas, self)
      else
        (case lemondas_ciklus (upper (strip id_be)) megerosites_be (foglalasok self) of
           (k, fs') \<Rightarrow> (k, self\<lparr> foglalasok := fs' \<rparr>)))"

definition foglalasok_listazasa :: "Rendszer \<Rightarrow> kimenet \<times> Rendszer" where
  "foglalasok_listazasa self =
     (if foglalasok self = [] then (NincsFoglalas, self)
      else
        let aktiv_foglalasok = filter (\<lambda>f. f_statusz f = Aktiv) (foglalasok self);
            lemondott_foglalasok = filter (\<lambda>f. f_statusz f = Lemondva) (foglalasok self)
        in (case mind_str JegyFoglalas_str aktiv_foglalasok of
              Inl e \<Rightarrow> (Osszeomlas e, self)
            | Inr sa \<Rightarrow>
                (case mind_str JegyFoglalas_str lemondott_foglalasok of
                   Inl e \<Rightarrow> (Osszeomlas e, self)
                 | Inr sl \<Rightarrow> (FoglalasLista sa sl, self))))"

definition jaratok_listazasa :: "Rendszer \<Rightarrow> kimenet \<times> Rendszer" where
  "jaratok_listazasa self =
     (case legitarsasag self of
        None \<Rightarrow> (NincsJarat, self)
      | Some l \<Rightarrow>
          if jaratok l = [] then (NincsJarat, self)
          else (case mind_str Jarat_str (jaratok l) of
                  Inl e \<Rightarrow> (Osszeomlas e, self)
                | Inr sorok \<Rightarrow> (JaratLista sorok, self)))"

text \<open>
  \<open>uj_jarat_hozzaadasa\<close>. The lines entered are the fields of \<open>jarat_bemenet\<close>;
  \<open>be_ar\<close> is what \<open>float(input(...))\<close> gives and \<open>be_datum\<close> what
  \<open>datetime.strptime\<close> gives for the date entered, \<open>None\<close> when they raise
  \<open>ValueError\<close>. The new flight is printed after it was added, inside the \<open>try\<close>.
\<close>

record jarat_bemenet =
  be_jaratszam :: str
  be_indulo :: str
  be_cel :: str
  be_ar :: "pyfloat option"
  be_legitarsasag :: str
  be_datum :: "datetime option"
  be_tipus :: str

definition uj_jarat_hozzaadasa :: "Rendszer \<Rightarrow> jarat_bemenet \<Rightarrow> datetime \<Rightarrow> kimenet \<times> Rendszer" where
  "uj_jarat_hozzaadasa self be now =
     (case legitarsasag self of
        None \<Rightarrow> (NincsLegitarsasag, self)
      | Some l \<Rightarrow>
          let jsz = upper (strip (be_jaratszam be));
              ind = strip (be_indulo be);
              cel = strip (be_cel be)
          in (case be_ar be of
                None \<Rightarrow> (ErvenytelenAr, self)
              | Some a \<Rightarrow>
                  if le_zero a then (ArNemPozitiv, self)
                  else
                    let legi = strip (be_legitarsasag be) in
                    (case be_datum be of
                       None \<Rightarrow> (ErvenytelenDatum, self)
                     | Some d \<Rightarrow>
                         let tipus = strip (be_tipus be) in
                         if tipus = ''1'' \<or> tipus = ''2'' then
                           (let uj_jarat =
                                  (if tipus = ''1''
                                   then BelfoldiJarat_init jsz ind cel a legi d now
                                   else NemzetkoziJarat_init jsz ind cel a legi d now)
                            in case jarat_hozzaadasa l uj_jarat of
                                 Inl e \<Rightarrow> (Hiba e, self)
                               | Inr l' \<Rightarrow>
                                   (let self' = self\<lparr> legitarsasag := Some l' \<rparr>
                                    in case Jarat_str uj_jarat of
                                         Inl e \<Rightarrow>
                                           (if is_ValueError e then Hiba e else VaratlanHiba e,
                                            self')
                                       | Inr sor \<Rightarrow> (JaratHozzaadva sor, self')))
                         else (ErvenytelenJarattipus, self))))"

text \<open>
  \<open>rendszer_allapota\<close>: the name of the airline with the numbers of its flights,
  of the active, the domestic and the international ones, then the numbers of the
  bookings, of the active and of the cancelled ones.
\<close>

definition rendszer_allapota :: "Rendszer \<Rightarrow> kimenet \<times> Rendszer" where
  "rendszer_allapota self =
     (Allapot
        (case legitarsasag self of
           None \<Rightarrow> None
         | Some l \<Rightarrow>
             Some (nev l,
                   length (jaratok l),
                   length (filter (\<lambda>j. statusz j = AKTIV) (jaratok l)),
                   length (filter (\<lambda>j. osztaly j = BelfoldiJarat) (jaratok l)),
                   length (filter (\<lambda>j. osztaly j = NemzetkoziJarat) (jaratok l))))
        (length (foglalasok self))
        (length (filter (\<lambda>f. f_statusz f = Aktiv) (foglalasok self)))
        (length (filter (\<lambda>f. f_statusz f = Lemondva) (foglalasok self))),
      self)"

text \<open>
  One turn of the menu loop of \<open>futtatas\<close>: the choice entered, with the lines, the
  clock readings and the draws that the chosen operation will use.
\<close>

datatype muvelet =
    M1 "int option" str datetime veletlen
  | M2 str str
  | M3
  | M4 jarat_bemenet datetime
  | M5
  | M6
  | M7
  | Mas

fun menu :: "Rendszer \<Rightarrow> muvelet \<Rightarrow> (kimenet \<times> Rendszer) option" where
  "menu self (M1 v n now rnd) = jegy_foglalas self v n now rnd"
| "menu self (M2 i m) = Some (foglalas_lemondasa self i m)"
| "menu self M3 = Some (foglalasok_listazasa self)"
| "menu self (M4 be now) = Some (uj_jarat_hozzaadasa self be now)"
| "menu self M5 = Some (jaratok_listazasa self)"
| "menu self M6 = Some (rendszer_allapota self)"
| "menu self M7 = Some (Kilepes, self)"
| "menu self Mas = Some (ErvenytelenMenu, self)"

text \<open>
  The menu loop on a list of turns: it ends at the choice 7 and at an exception
  that nothing catches; \<open>None\<close> is a turn that never returns.
\<close>

fun vege :: "kimenet \<Rightarrow> bool" where
  "vege Kilepes = True"
| "vege (Osszeomlas _) = True"
| "vege _ = False"

fun menu_ciklus :: "Rendszer \<Rightarrow> muvelet list \<Rightarrow> (kimenet list \<times> Rendszer) option" where
  "menu_ciklus self [] = Some ([], self)"
| "menu_ciklus self (m # ms) =
     (case menu self m of
        None \<Rightarrow> None
      | Some (k, self') \<Rightarrow>
          if vege k then Some ([k], self')
          else (case menu_ciklus self' ms of
                  None \<Rightarrow> None
                | Some (ks, self'') \<Rightarrow> Some (k # ks, self'')))"

text \<open>\<open>futtatas\<close>: the demo data, then the menu loop.\<close>

definition futtatas ::
  "veletlen \<Rightarrow> datetime \<Rightarrow> datetime \<Rightarrow> datetime \<Rightarrow> muvelet list
     \<Rightarrow> (kivetel + kimenet list \<times> Rendszer) option" where
  "futtatas rnd now1 now2 now3 ms =
     (case init_test_adatok Rendszer_init rnd now1 now2 now3 of
        Inl e \<Rightarrow> Some (Inl e)
      | Inr self \<Rightarrow> map_option Inr (menu_ciklus self ms))"


text \<open>The flights of the system, in the order of insertion.\<close>

definition jaratai :: "Rendszer \<Rightarrow> Jarat list" where
  "jaratai self = (case legitarsasag self of None \<Rightarrow> [] | Some l \<Rightarrow> jaratok l)"

subsection \<open>Example values\<close>

text \<open>A flight constructed on 1 January 2025 at noon, and a system that holds it.\<close>

definition pelda_jarat :: Jarat where
  "pelda_jarat = BelfoldiJarat_init ''WIZ102'' ''Budapest'' ''Szeged'' (Finite 20000)
                   ''Wizz Air'' (Datetime 2025 6 10 0 0 0 0) (Datetime 2025 1 1 12 0 0 0)"

definition pelda_legitarsasag :: Legitarsasag where
  "pelda_legitarsasag = \<lparr> nev = ''Wizz Air Hungary'', jaratok = [pelda_jarat] \<rparr>"

definition pelda_rendszer :: Rendszer where
  "pelda_rendszer = \<lparr> legitarsasag = Some pelda_legitarsasag, foglalasok = [],
                       existing_foglalas_ids = {} \<rparr>"

definition pelda_bemenet :: jarat_bemenet where
  "pelda_bemenet = \<lparr> be_jaratszam = '' wiz201 '', be_indulo = ''Budapest'', be_cel = ''London'',
       be_ar = Some (Finite 50000), be_legitarsasag = ''Wizz Air'',
       be_datum = Some (Datetime 2025 6 15 0 0 0 0), be_tipus = ''2'' \<rparr>"

definition pelda_jarat_2 :: Jarat where
  "pelda_jarat_2 = \<lparr> jaratszam = ''WIZ201'', indulo_repter = ''Budapest'', celallomas = ''London'',
      jegyar = Finite 65000, j_legitarsasag = ''Wizz Air'', datum = Datetime 2025 6 15 0 0 0 0,
      statusz = AKTIV, osztaly = NemzetkoziJarat, repulesi_ido = 8 \<rparr>"

definition pelda_rendszer_2 :: Rendszer where
  "pelda_rendszer_2 = \<lparr> legitarsasag =
        Some \<lparr> nev = ''Wizz Air Hungary'', jaratok = [pelda_jarat, pelda_jarat_2] \<rparr>,
      foglalasok = [], existing_foglalas_ids = {} \<rparr>"

text \<open>
  Two sequences of draws: \<open>sorban\<close> counts up, \<open>nulla\<close> gives the index 0 at
  every draw. \<open>futtatas_kimenet\<close> is what a run of the program prints.
\<close>

definition sorban :: veletlen where
  "sorban n = n"

definition nulla :: veletlen where
  "nulla n = 0"

definition futtatas_kimenet ::
  "veletlen \<Rightarrow> datetime \<Rightarrow> datetime \<Rightarrow> datetime \<Rightarrow> muvelet list \<Rightarrow> (kivetel + kimenet list) option" where
  "futtatas_kimenet rnd now1 now2 now3 ms = map_option (map_sum id fst) (futtatas rnd now1 now2 now3 ms)"

text \<open>The three flights of the demo data, constructed at the clock readings given.\<close>

definition teszt_jaratok :: "datetime \<Rightarrow> datetime \<Rightarrow> datetime \<Rightarrow> Jarat list" where
  "teszt_jaratok now1 now2 now3 =
     [\<lparr> jaratszam = ''WIZ001'', indulo_repter = ''Budapest'', celallomas = ''Debrecen'',
        jegyar = Finite 12000, j_legitarsasag = ''Wizz Air'', datum = Datetime 2023 1 1 0 0 0 0,
        statusz = (if dt_less now1 (Datetime 2023 1 1 0 0 0 0) then AKTIV else INAKTIV),
        osztaly = BelfoldiJarat, repulesi_ido = 2 \<rparr>,
      \<lparr> jaratszam = ''WIZ102'', indulo_repter = ''Budapest'', celallomas = ''Szeged'',
        jegyar = Finite 16000, j_legitarsasag = ''Wizz Air'', datum = Datetime 2025 6 10 0 0 0 0,
        statusz = (if dt_less now2 (Datetime 2025 6 10 0 0 0 0) then AKTIV else INAKTIV),
        osztaly = BelfoldiJarat, repulesi_ido = 2 \<rparr>,
      \<lparr> jaratszam = ''WIZ201'', indulo_repter = ''Budapest'', celallomas = ''London'',
        jegyar = Finite 65000, j_legitarsasag = ''Wizz Air'', datum = Datetime 2025 6 15 0 0 0 0,
        statusz = (if dt_less now3 (Datetime 2025 6 15 0 0 0 0) then AKTIV else INAKTIV),
        osztaly = NemzetkoziJarat, repulesi_ido = 8 \<rparr>]"

text \<open>
  A domestic flight of the base price 10, a system that holds it, the booking that
  \<open>jegy_foglalas\<close> makes of it with the draws \<open>sorban\<close>, and the system with that
  booking active and cancelled.
\<close>

definition olcso_jarat :: Jarat where
  "olcso_jarat = BelfoldiJarat_init ''WIZ300'' ''Budapest'' ''Szeged'' (Finite 10)
                   ''Wizz Air'' (Datetime 2025 6 10 0 0 0 0) (Datetime 2025 1 1 12 0 0 0)"

definition olcso_foglalas :: JegyFoglalas where
  "olcso_foglalas = JegyFoglalas_init olcso_jarat ''Kiss Anna'' sorban 0"

definition olcso_rendszer_0 :: Rendszer where
  "olcso_rendszer_0 = \<lparr> legitarsasag = Some \<lparr> nev = ''Wizz Air Hungary'', jaratok = [olcso_jarat] \<rparr>,
       foglalasok = [], existing_foglalas_ids = {} \<rparr>"

definition olcso_rendszer :: Rendszer where
  "olcso_rendszer = olcso_rendszer_0 \<lparr> foglalasok := [olcso_foglalas],
                                       existing_foglalas_ids := {''AB234''} \<rparr>"




section \<open>Facts about the floating point numbers\<close>

lemma powi_nat_diff:
  assumes "0 \<le> x" "0 \<le> y"
  shows "(2::rat) ^ nat x / 2 ^ nat y = 2 powi (x - y)"
  using assms by (simp add: power_int_diff power_int_nonneg_exp)

lemma ilog2_bounds:
  assumes "0 < a"
  shows "2 powi (ilog2 a) \<le> a \<and> a < 2 powi (ilog2 a + 1)"
proof -
  obtain n d where qd: "quotient_of a = (n, d)" by (cases "quotient_of a")
  have d: "0 < d" using qd by (rule quotient_of_denom_pos)
  have a: "a = of_int n / of_int d" using qd by (rule quotient_of_div)
  have n: "0 < n" using assms d a by (simp add: zero_less_divide_iff)
  define ln where "ln = bitlen n"
  define ld where "ld = bitlen d"
  have ln1: "1 \<le> ln" using n bitlen_eq_zero_iff[of n] bitlen_nonneg[of n] by (auto simp: ln_def order_less_le)
  have ld1: "1 \<le> ld" using d bitlen_eq_zero_iff[of d] bitlen_nonneg[of d] by (auto simp: ld_def order_less_le)
  have bn: "2 ^ nat (ln - 1) \<le> n" "n < 2 ^ nat ln"
    using bitlen_bounds[OF n] by (simp_all add: ln_def)
  have bd: "2 ^ nat (ld - 1) \<le> d" "d < 2 ^ nat ld"
    using bitlen_bounds[OF d] by (simp_all add: ld_def)
  have rn: "(2::rat) ^ nat (ln - 1) \<le> of_int n" "(of_int n :: rat) < 2 ^ nat ln"
    using bn by (metis of_int_le_iff of_int_numeral of_int_power, metis of_int_less_iff of_int_numeral of_int_power)
  have rd: "(2::rat) ^ nat (ld - 1) \<le> of_int d" "(of_int d :: rat) < 2 ^ nat ld"
    using bd by (metis of_int_le_iff of_int_numeral of_int_power, metis of_int_less_iff of_int_numeral of_int_power)
  have dpos: "(0::rat) < of_int d" using d by simp
  have up: "a < 2 powi (ln - ld + 1)"
  proof -
    have "a < 2 ^ nat ln / of_int d" unfolding a using rn(2) dpos by (simp add: divide_strict_right_mono)
    also have "\<dots> \<le> 2 ^ nat ln / 2 ^ nat (ld - 1)"
      using rd(1) by (simp add: frac_le)
    also have "\<dots> = 2 powi (ln - (ld - 1))" using ln1 ld1 by (intro powi_nat_diff) auto
    finally show ?thesis by (simp add: algebra_simps)
  qed
  have lo: "2 powi (ln - ld - 1) < a"
  proof -
    have "2 powi (ln - 1 - ld) = (2::rat) ^ nat (ln - 1) / 2 ^ nat ld"
      using ln1 ld1 by (intro powi_nat_diff[symmetric]) auto
    also have "\<dots> < 2 ^ nat (ln - 1) / of_int d"
      using rd(2) dpos by (simp add: divide_strict_left_mono)
    also have "\<dots> \<le> a" unfolding a using rn(1) dpos by (simp add: divide_right_mono)
    finally show ?thesis by (simp add: algebra_simps)
  qed
  show ?thesis
  proof (cases "2 powi (ln - ld) \<le> a")
    case True
    then have "ilog2 a = ln - ld" by (simp add: ilog2_def qd ln_def ld_def)
    with True up show ?thesis by simp
  next
    case False
    then have e: "ilog2 a = ln - ld - 1" by (simp add: ilog2_def qd ln_def ld_def)
    from False lo show ?thesis unfolding e by simp
  qed
qed

lemma ilog2_unique:
  assumes "2 powi e \<le> a" "a < 2 powi (e + 1)"
  shows "ilog2 a = e"
proof -
  have pos: "0 < a" using assms(1) by (rule less_le_trans[rotated]) simp
  note b = ilog2_bounds[OF pos]
  have "(2::rat) powi e < 2 powi (ilog2 a + 1)" using assms(1) b by linarith
  then have 1: "e < ilog2 a + 1"
    by (metis linorder_not_less one_less_numeral_iff power_int_increasing semiring_norm(76) less_imp_le)
  have "(2::rat) powi (ilog2 a) < 2 powi (e + 1)" using assms(2) b by linarith
  then have 2: "ilog2 a < e + 1"
    by (metis linorder_not_less one_less_numeral_iff power_int_increasing semiring_norm(76) less_imp_le)
  from 1 2 show ?thesis by linarith
qed


lemma round64_pos:
  assumes "2 powi e \<le> q" "q < 2 powi (e + 1)" "- 1022 \<le> e"
    and "round_half_even (q / 2 powi (e - 52)) = m"
    and "of_int m * 2 powi (e - 52) < (2::rat) powi 1024"
  shows "round64 q = Finite (of_int m * 2 powi (e - 52))"
proof -
  have pos: "0 < q" using assms(1) by (rule less_le_trans[rotated]) simp
  have e: "ilog2 q = e" using assms(1,2) by (rule ilog2_unique)
  have a: "\<bar>q\<bar> = q" using pos by simp
  have m: "max e (- 1022) = e" using assms(3) by simp
  show ?thesis
    unfolding round64_def Let_def a e m assms(4)
    using pos assms(5) by simp
qed

lemma round_half_even_near:
  assumes "\<bar>x - of_int m\<bar> < 1 / 2"
  shows "round_half_even x = m"
proof (cases "of_int m \<le> x")
  case True
  then have "\<lfloor>x\<rfloor> = m" using assms by (intro floor_unique) (simp_all add: abs_less_iff)
  then show ?thesis using assms True by (simp add: round_half_even_def Let_def abs_less_iff)
next
  case False
  then have "\<lfloor>x\<rfloor> = m - 1" using assms by (intro floor_unique) (simp_all add: abs_less_iff)
  then show ?thesis using assms False by (simp add: round_half_even_def Let_def abs_less_iff)
qed

lemma round_half_even_tie:
  assumes "x = of_int n + 1 / 2"
  shows "round_half_even x = (if even n then n else n + 1)"
proof -
  have "\<lfloor>x\<rfloor> = n" using assms by (intro floor_unique) simp_all
  then show ?thesis using assms by (simp add: round_half_even_def Let_def)
qed

lemma lit_0_8_eq: "lit_0_8 = Finite (3602879701896397 / 4503599627370496)"
proof -
  have "round64 (8 / 10) = Finite (of_int 7205759403792794 * 2 powi (- 1 - 52))"
    by (rule round64_pos) (simp_all add: round_half_even_near)
  then show ?thesis by (simp add: lit_0_8_def)
qed

lemma lit_1_3_eq: "lit_1_3 = Finite (5854679515581645 / 4503599627370496)"
proof -
  have "round64 (13 / 10) = Finite (of_int 5854679515581645 * 2 powi (0 - 52))"
    by (rule round64_pos) (simp_all add: round_half_even_near)
  then show ?thesis by (simp add: lit_1_3_def)
qed

lemma lit_0_7_eq: "lit_0_7 = Finite (3152519739159347 / 4503599627370496)"
proof -
  have "round64 (7 / 10) = Finite (of_int 6305039478318694 * 2 powi (- 1 - 52))"
    by (rule round64_pos) (simp_all add: round_half_even_near)
  then show ?thesis by (simp add: lit_0_7_def)
qed

lemma mul_20000: "fmul (Finite 20000) lit_0_8 = Finite 16000"
proof -
  have "round64 (20000 * (3602879701896397 / 4503599627370496))
        = Finite (of_int 8796093022208000 * 2 powi (13 - 52))"
    by (rule round64_pos) (simp_all add: round_half_even_near)
  then show ?thesis by (simp add: lit_0_8_eq)
qed

lemma mul_50000: "fmul (Finite 50000) lit_1_3 = Finite 65000"
proof -
  have "round64 (50000 * (5854679515581645 / 4503599627370496))
        = Finite (of_int 8933531975680000 * 2 powi (15 - 52))"
    by (rule round64_pos) (simp_all add: round_half_even_near)
  then show ?thesis by (simp add: lit_1_3_eq)
qed

lemma mul_15000: "fmul (Finite 15000) lit_0_8 = Finite 12000"
proof -
  have "round64 (15000 * (3602879701896397 / 4503599627370496))
        = Finite (of_int 6597069766656000 * 2 powi (13 - 52))"
    by (rule round64_pos) (simp_all add: round_half_even_near)
  then show ?thesis by (simp add: lit_0_8_eq)
qed

lemma mul_16000: "fmul (Finite 16000) lit_0_7 = Finite 11200"
proof -
  have "round64 (16000 * (3152519739159347 / 4503599627370496))
        = Finite (of_int 6157265115545600 * 2 powi (13 - 52))"
    by (rule round64_pos) (simp_all add: round_half_even_near)
  then show ?thesis by (simp add: lit_0_7_eq)
qed

lemma mul_10: "fmul (Finite 10) lit_0_8 = Finite 8"
proof -
  have "round64 (10 * (3602879701896397 / 4503599627370496))
        = Finite (of_int 4503599627370496 * 2 powi (3 - 52))"
    by (rule round64_pos) (simp_all add: round_half_even_near)
  then show ?thesis by (simp add: lit_0_8_eq)
qed

section \<open>Facts about the operations\<close>

lemma pelda_jarat_eq:
  "pelda_jarat = \<lparr> jaratszam = ''WIZ102'', indulo_repter = ''Budapest'', celallomas = ''Szeged'',
      jegyar = Finite 16000, j_legitarsasag = ''Wizz Air'', datum = Datetime 2025 6 10 0 0 0 0,
      statusz = AKTIV, osztaly = BelfoldiJarat, repulesi_ido = 2 \<rparr>"
  by (simp add: pelda_jarat_def BelfoldiJarat_init_def Jarat_init_def mul_20000 dt_less_def)


lemma jegy_foglalas_jaratai:
  "jegy_foglalas self v n now rnd = Some (k, self') \<Longrightarrow> legitarsasag self' = legitarsasag self"
  by (auto simp: jegy_foglalas_def Let_def split: option.splits sum.splits if_splits)

lemma foglalas_lemondasa_legi:
  "foglalas_lemondasa self i m = (k, self') \<Longrightarrow> legitarsasag self' = legitarsasag self"
  by (auto simp: foglalas_lemondasa_def split: if_splits prod.splits)

lemma jarat_hozzaadasa_append:
  "jarat_hozzaadasa l j = Inr l' \<Longrightarrow> jaratok l' = jaratok l @ [j]"
  by (auto simp: jarat_hozzaadasa_def split: if_splits)

lemma uj_jarat_jaratai:
  "uj_jarat_hozzaadasa self be now = (k, self') \<Longrightarrow> \<exists>ujak. jaratai self' = jaratai self @ ujak"
  by (auto simp: uj_jarat_hozzaadasa_def jaratai_def Let_def
      split: option.splits sum.splits if_splits dest: jarat_hozzaadasa_append)

lemma menu_jaratai:
  assumes "menu self m = Some (k, self')"
  shows "\<exists>ujak. jaratai self' = jaratai self @ ujak"
proof (cases m)
  case (M1 v n now rnd)
  with assms show ?thesis by (auto simp: jaratai_def dest: jegy_foglalas_jaratai)
next
  case (M2 i mm)
  with assms show ?thesis by (auto simp: jaratai_def dest: foglalas_lemondasa_legi)
next
  case (M4 be now)
  with assms show ?thesis by (auto dest: uj_jarat_jaratai)
qed (use assms in \<open>auto simp: foglalasok_listazasa_def jaratok_listazasa_def rendszer_allapota_def Let_def
      split: if_splits option.splits sum.splits\<close>)

lemma menu_ciklus_jaratai:
  "menu_ciklus self ms = Some (ks, self') \<Longrightarrow> \<exists>ujak. jaratai self' = jaratai self @ ujak"
proof (induction ms arbitrary: self ks)
  case Nil
  then show ?case by simp
next
  case (Cons m ms)
  from Cons.prems obtain k s1 where m: "menu self m = Some (k, s1)"
    by (auto split: option.splits)
  from menu_jaratai[OF m] obtain u1 where u1: "jaratai s1 = jaratai self @ u1" by blast
  show ?case
  proof (cases "vege k")
    case True
    with Cons.prems m have "self' = s1" by simp
    with u1 show ?thesis by blast
  next
    case False
    with Cons.prems m obtain ks' where "menu_ciklus s1 ms = Some (ks', self')"
      by (auto split: option.splits)
    from Cons.IH[OF this] obtain u2 where "jaratai self' = jaratai s1 @ u2" by blast
    with u1 show ?thesis by simp
  qed
qed


lemma upper_strip_pelda: "upper (strip '' wiz201 '') = ''WIZ201''"
  by code_simp

lemma strip_id: "strip ''Budapest'' = ''Budapest''" "strip ''London'' = ''London''"
  "strip ''Wizz Air'' = ''Wizz Air''" "strip ''2'' = ''2''" "strip ''1'' = ''1''"
  by (simp_all add: strip_def isspace_def)

lemma uj_jarat_pelda:
  "uj_jarat_hozzaadasa pelda_rendszer pelda_bemenet (Datetime 2025 2 3 0 0 0 0)
   = (JaratHozzaadva (AKTIV, ''WIZ201'', ''Budapest'', ''London'',
                      ''Nemzetk'' @ [CHR 0xF6] @ ''zi'', Datetime 2025 6 15 0 0 0 0, 65000),
      pelda_rendszer_2)"
  by (simp add: uj_jarat_hozzaadasa_def pelda_rendszer_def pelda_bemenet_def upper_strip_pelda
      strip_id NemzetkoziJarat_init_def Jarat_init_def mul_50000 dt_less_def jarat_hozzaadasa_def
      pelda_legitarsasag_def pelda_jarat_eq Jarat_str_def pelda_jarat_2_def Let_def
      pelda_rendszer_2_def)

lemma jegy_foglalas_pelda:
  "jegy_foglalas pelda_rendszer_2 (Some 1) ''Kiss Anna'' (Datetime 2025 7 2 0 0 0 0) (\<lambda>n. n)
     = Some (DatumElmult, pelda_rendszer_2)"
  by (simp add: jegy_foglalas_def Jarat_str_def pelda_jarat_eq pelda_jarat_2_def dt_less_def
      pelda_rendszer_2_def)

lemma rendszer_allapota_pelda:
  "rendszer_allapota pelda_rendszer_2
     = (Allapot (Some (''Wizz Air Hungary'', 2, 2, 1, 1)) 0 0 0, pelda_rendszer_2)"
  by (simp add: rendszer_allapota_def pelda_jarat_eq pelda_jarat_2_def pelda_rendszer_2_def)

lemma menu_pelda:
  "menu_ciklus pelda_rendszer
         [M4 pelda_bemenet (Datetime 2025 2 3 0 0 0 0),
          M1 (Some 1) ''Kiss Anna'' (Datetime 2025 7 2 0 0 0 0) (\<lambda>n. n),
          M6]
       = Some ([JaratHozzaadva (AKTIV, ''WIZ201'', ''Budapest'', ''London'',
                      ''Nemzetk'' @ [CHR 0xF6] @ ''zi'', Datetime 2025 6 15 0 0 0 0, 65000),
                DatumElmult,
                Allapot (Some (''Wizz Air Hungary'', 2, 2, 1, 1)) 0 0 0],
               pelda_rendszer_2)"
  by (simp add: uj_jarat_pelda jegy_foglalas_pelda rendszer_allapota_pelda)

lemma init_test_adatok_eq:
  "init_test_adatok self rnd now1 now2 now3 =
     Inr (self\<lparr> legitarsasag :=
                  Some \<lparr> nev = ''Wizz Air Hungary'', jaratok = teszt_jaratok now1 now2 now3 \<rparr>,
               foglalasok := foglalasok self @
                 [JegyFoglalas_init (teszt_jaratok now1 now2 now3 ! 1)
                    (''Nagy J'' @ [CHR 0xE1] @ ''nos'') rnd 0,
                  JegyFoglalas_init (teszt_jaratok now1 now2 now3 ! 1)
                    (''Kov'' @ [CHR 0xE1] @ ''cs B'' @ [CHR 0xE9] @ ''la'') rnd 5,
                  JegyFoglalas_init (teszt_jaratok now1 now2 now3 ! 2)
                    (''Szab'' @ [CHR 0xF3, CHR 0x20, CHR 0xC9] @ ''va'') rnd 10,
                  JegyFoglalas_init (teszt_jaratok now1 now2 now3 ! 2)
                    (''Kiss Zolt'' @ [CHR 0xE1] @ ''n'') rnd 15,
                  JegyFoglalas_init (teszt_jaratok now1 now2 now3 ! 2)
                    (''T'' @ [CHR 0xF3] @ ''th M'' @ [CHR 0xE1] @ ''ria'') rnd 20,
                  JegyFoglalas_init (teszt_jaratok now1 now2 now3 ! 2)
                    (''Horv'' @ [CHR 0xE1] @ ''th P'' @ [CHR 0xE9] @ ''ter'') rnd 25],
               existing_foglalas_ids :=
                 {generate_foglalas_id rnd 25, generate_foglalas_id rnd 20,
                  generate_foglalas_id rnd 15, generate_foglalas_id rnd 10,
                  generate_foglalas_id rnd 5, generate_foglalas_id rnd 0}
                 \<union> fold (\<lambda>f ids. insert (foglalas_id f) ids) (foglalasok self)
                     (existing_foglalas_ids self) \<rparr>)"
  by (simp add: init_test_adatok_def jarat_hozzaadasa_def Legitarsasag_init_def
      BelfoldiJarat_init_def NemzetkoziJarat_init_def Jarat_init_def elem_def
      mul_15000 mul_20000 mul_50000 teszt_jaratok_def JegyFoglalas_init_def Let_def)

lemma generate_nulla: "generate_foglalas_id nulla pos = ''AA000''"
  by (simp add: generate_foglalas_id_def random_choices_def nulla_def ascii_uppercase_def
      digits_def upt_rec)

lemma generate_sorban:
  "generate_foglalas_id sorban 0 = ''AB234''"
  "generate_foglalas_id sorban 5 = ''FG789''"
  "generate_foglalas_id sorban 10 = ''KL234''"
  "generate_foglalas_id sorban 15 = ''PQ789''"
  "generate_foglalas_id sorban 20 = ''UV234''"
  "generate_foglalas_id sorban 25 = ''ZA789''"
  by (simp_all add: generate_foglalas_id_def random_choices_def sorban_def ascii_uppercase_def
      digits_def upt_rec)

lemma ujra_general_fresh:
  assumes "ujra_general ids jarat utas rnd pos foglalas = Some g"
  shows "foglalas_id g \<notin> ids"
proof (rule ujra_general.raw_induct
         [where P = "\<lambda>ids jarat utas rnd pos foglalas g. foglalas_id g \<notin> ids", OF _ assms])
  fix ujra ids jarat utas rnd pos foglalas g
  assume ih: "\<And>ids jarat utas rnd pos foglalas g.
                 ujra ids jarat utas rnd pos foglalas = Some g \<Longrightarrow> foglalas_id g \<notin> ids"
    and eq: "(if foglalas_id foglalas \<in> ids
              then ujra ids jarat utas rnd (pos + 5) (JegyFoglalas_init jarat utas rnd pos)
              else Some foglalas) = Some g"
  show "foglalas_id g \<notin> ids"
  proof (cases "foglalas_id foglalas \<in> ids")
    case True
    with eq have "ujra ids jarat utas rnd (pos + 5) (JegyFoglalas_init jarat utas rnd pos) = Some g"
      by simp
    then show ?thesis by (rule ih)
  next
    case False
    with eq show ?thesis by simp
  qed
qed

lemma jegy_foglalas_cases:
  assumes "jegy_foglalas self v n now rnd = Some (k, self')"
  shows "self' = self
         \<or> (\<exists>f. foglalas_id f \<notin> existing_foglalas_ids self
                \<and> self' = self\<lparr> foglalasok := foglalasok self @ [f],
                     existing_foglalas_ids := insert (foglalas_id f) (existing_foglalas_ids self) \<rparr>)"
  using assms
  by (auto simp: jegy_foglalas_def Let_def split: option.splits sum.splits if_splits
      dest: ujra_general_fresh)

lemma jegy_foglalas_keeps_distinct:
  assumes "jegy_foglalas self v n now rnd = Some (k, self')"
    and "distinct (map foglalas_id (foglalasok self))"
    and "set (map foglalas_id (foglalasok self)) \<subseteq> existing_foglalas_ids self"
  shows "distinct (map foglalas_id (foglalasok self'))
         \<and> set (map foglalas_id (foglalasok self')) \<subseteq> existing_foglalas_ids self'"
proof -
  from jegy_foglalas_cases[OF assms(1)] show ?thesis
  proof
    assume "self' = self"
    with assms show ?thesis by simp
  next
    assume "\<exists>f. foglalas_id f \<notin> existing_foglalas_ids self
                \<and> self' = self\<lparr> foglalasok := foglalasok self @ [f],
                     existing_foglalas_ids := insert (foglalas_id f) (existing_foglalas_ids self) \<rparr>"
    then obtain f where f: "foglalas_id f \<notin> existing_foglalas_ids self"
      and s: "self' = self\<lparr> foglalasok := foglalasok self @ [f],
                     existing_foglalas_ids := insert (foglalas_id f) (existing_foglalas_ids self) \<rparr>"
      by blast
    from f assms(3) have "foglalas_id f \<notin> set (map foglalas_id (foglalasok self))" by blast
    with assms(2,3) show ?thesis unfolding s by auto
  qed
qed

lemma lemondas_ciklus_nincs:
  assumes "\<forall>g \<in> set fs. \<not> (foglalas_id g = fid \<and> f_statusz g = Aktiv)"
  shows "lemondas_ciklus fid m fs = (NemTalalhato, fs)"
  using assms by (induction fs) auto

lemma lemondas_ciklus_elso:
  assumes "\<forall>g \<in> set elotte. \<not> (foglalas_id g = fid \<and> f_statusz g = Aktiv)"
  shows "lemondas_ciklus fid m (elotte @ f # utana)
         = (case lemondas_ciklus fid m (f # utana) of (k, fs') \<Rightarrow> (k, elotte @ fs'))"
  using assms by (induction elotte) (auto split: prod.splits)

lemma lemondas_ciklus_valtozas:
  "snd (lemondas_ciklus fid m fs) = fs
   \<or> (\<exists>i < length fs. f_statusz (fs ! i) = Aktiv
         \<and> snd (lemondas_ciklus fid m fs) = fs[i := (fs ! i)\<lparr> f_statusz := Lemondva \<rparr>])"
proof (induction fs)
  case Nil
  then show ?case by simp
next
  case (Cons f fs)
  show ?case
  proof (cases "foglalas_id f = fid \<and> f_statusz f = Aktiv")
    case True
    have "snd (lemondas_ciklus fid m (f # fs)) = f # fs
          \<or> snd (lemondas_ciklus fid m (f # fs)) = (f # fs)[0 := ((f # fs) ! 0)\<lparr> f_statusz := Lemondva \<rparr>]"
      using True by (simp add: Let_def split: sum.splits)
    with True show ?thesis by (metis length_greater_0_conv list.distinct(1) nth_Cons_0)
  next
    case False
    then have eq: "snd (lemondas_ciklus fid m (f # fs)) = f # snd (lemondas_ciklus fid m fs)"
      by (auto split: prod.splits)
    from Cons.IH show ?thesis
    proof
      assume "snd (lemondas_ciklus fid m fs) = fs"
      with eq show ?thesis by simp
    next
      assume "\<exists>i < length fs. f_statusz (fs ! i) = Aktiv
         \<and> snd (lemondas_ciklus fid m fs) = fs[i := (fs ! i)\<lparr> f_statusz := Lemondva \<rparr>]"
      then obtain i where i: "i < length fs" "f_statusz (fs ! i) = Aktiv"
        "snd (lemondas_ciklus fid m fs) = fs[i := (fs ! i)\<lparr> f_statusz := Lemondva \<rparr>]" by blast
      have "Suc i < length (f # fs) \<and> f_statusz ((f # fs) ! Suc i) = Aktiv
            \<and> snd (lemondas_ciklus fid m (f # fs))
               = (f # fs)[Suc i := ((f # fs) ! Suc i)\<lparr> f_statusz := Lemondva \<rparr>]"
        using i eq by simp
      then show ?thesis by blast
    qed
  qed
qed

lemma lemondas_ciklus_lemondva:
  assumes "i < length fs" "f_statusz (fs ! i) = Lemondva"
  shows "i < length (snd (lemondas_ciklus fid m fs))
         \<and> f_statusz (snd (lemondas_ciklus fid m fs) ! i) = Lemondva"
  using lemondas_ciklus_valtozas[of fid m fs] assms
  by (auto simp: nth_list_update)

lemma olcso_jarat_eq:
  "olcso_jarat = \<lparr> jaratszam = ''WIZ300'', indulo_repter = ''Budapest'', celallomas = ''Szeged'',
      jegyar = Finite 8, j_legitarsasag = ''Wizz Air'', datum = Datetime 2025 6 10 0 0 0 0,
      statusz = AKTIV, osztaly = BelfoldiJarat, repulesi_ido = 2 \<rparr>"
  by (simp add: olcso_jarat_def BelfoldiJarat_init_def Jarat_init_def mul_10 dt_less_def)

lemma olcso_foglalas_eq:
  "olcso_foglalas = \<lparr> foglalas_id = ''AB234'', f_jaratszam = ''WIZ300'', indulo = ''Budapest'',
      f_celallomas = ''Szeged'', f_datum = Datetime 2025 6 10 0 0 0 0, utas_nev = ''Kiss Anna'',
      ar = Finite 8, f_statusz = Aktiv \<rparr>"
  by (simp add: olcso_foglalas_def JegyFoglalas_init_def olcso_jarat_eq generate_sorban)

lemma strip_kiss: "strip ''Kiss Anna'' = ''Kiss Anna''"
  by (simp add: strip_def isspace_def)

lemma mind_str_elem:
  assumes "mind_str f xs = Inr ys" "x \<in> set xs"
  shows "\<exists>y. f x = Inr y"
  using assms by (induction xs arbitrary: ys) (auto split: sum.splits)

lemma jegy_foglalas_sikeres:
  assumes l: "legitarsasag self = Some l"
    and ak: "filter (\<lambda>j. statusz j = AKTIV) (jaratok l) = aktiv"
    and pr: "mind_str Jarat_str aktiv = Inr sorok"
    and v: "1 \<le> v" "v \<le> int (length aktiv)"
    and j: "aktiv ! nat (v - 1) = j"
    and d: "\<not> dt_less (datum j) now"
    and n: "2 \<le> length (strip nev_be)"
    and f: "JegyFoglalas_init j (strip nev_be) rnd 0 = f"
    and fresh: "foglalas_id f \<notin> existing_foglalas_ids self"
    and p: "py_int (jegyar j) = Inr p"
  shows "jegy_foglalas self (Some v) nev_be now rnd
         = Some (FoglalasLetrehozva (foglalas_id f) p,
                 self\<lparr> foglalasok := foglalasok self @ [f],
                       existing_foglalas_ids := insert (foglalas_id f) (existing_foglalas_ids self) \<rparr>)"
proof -
  have ne: "aktiv \<noteq> []" using v by auto
  then have ne2: "jaratok l \<noteq> []" using ak by auto
  have u: "ujra_general (existing_foglalas_ids self) j (strip nev_be) rnd 5 f = Some f"
    using fresh by (subst ujra_general.simps) simp
  have arf: "ar f = jegyar j" using f by (auto simp: JegyFoglalas_init_def)
  show ?thesis
    using v d n ne ne2
    by (simp add: jegy_foglalas_def l ak pr j f u p arf Let_def)
qed

lemma jegy_foglalas_olcso:
  "jegy_foglalas olcso_rendszer_0 (Some 1) ''Kiss Anna'' (Datetime 2025 6 10 0 0 0 0) sorban
     = Some (FoglalasLetrehozva ''AB234'' 8, olcso_rendszer)"
proof -
  have "jegy_foglalas olcso_rendszer_0 (Some 1) ''Kiss Anna'' (Datetime 2025 6 10 0 0 0 0) sorban
     = Some (FoglalasLetrehozva (foglalas_id olcso_foglalas) 8,
             olcso_rendszer_0\<lparr> foglalasok := foglalasok olcso_rendszer_0 @ [olcso_foglalas],
                existing_foglalas_ids :=
                  insert (foglalas_id olcso_foglalas) (existing_foglalas_ids olcso_rendszer_0) \<rparr>)"
  proof (rule jegy_foglalas_sikeres)
    show "legitarsasag olcso_rendszer_0 = Some \<lparr> nev = ''Wizz Air Hungary'', jaratok = [olcso_jarat] \<rparr>"
      by (simp add: olcso_rendszer_0_def)
    show "filter (\<lambda>j. statusz j = AKTIV) (jaratok \<lparr> nev = ''Wizz Air Hungary'', jaratok = [olcso_jarat] \<rparr>)
          = [olcso_jarat]"
      by (simp add: olcso_jarat_eq)
    show "mind_str Jarat_str [olcso_jarat]
          = Inr [(AKTIV, ''WIZ300'', ''Budapest'', ''Szeged'', ''Belf'' @ [CHR 0xF6] @ ''ldi'',
                  Datetime 2025 6 10 0 0 0 0, 8)]"
      by (simp add: olcso_jarat_eq Jarat_str_def)
    show "[olcso_jarat] ! nat (1 - 1) = olcso_jarat" by simp
    show "\<not> dt_less (datum olcso_jarat) (Datetime 2025 6 10 0 0 0 0)"
      by (simp add: olcso_jarat_eq dt_less_def)
    show "2 \<le> length (strip ''Kiss Anna'')" by (simp add: strip_kiss)
    show "JegyFoglalas_init olcso_jarat (strip ''Kiss Anna'') sorban 0 = olcso_foglalas"
      by (simp add: strip_kiss olcso_foglalas_def)
    show "foglalas_id olcso_foglalas \<notin> existing_foglalas_ids olcso_rendszer_0"
      by (simp add: olcso_rendszer_0_def)
    show "py_int (jegyar olcso_jarat) = Inr 8" by (simp add: olcso_jarat_eq)
  qed simp_all
  then show ?thesis
    by (simp add: olcso_rendszer_def olcso_rendszer_0_def olcso_foglalas_eq)
qed

lemma foglalas_lemondasa_elso:
  assumes fs: "foglalasok self = elotte @ f # utana"
    and el: "\<forall>g \<in> set elotte. \<not> (foglalas_id g = upper (strip id_be) \<and> f_statusz g = Aktiv)"
  shows "foglalas_lemondasa self id_be m
         = (case lemondas_ciklus (upper (strip id_be)) m (f # utana) of
              (k, fs') \<Rightarrow> (k, self\<lparr> foglalasok := elotte @ fs' \<rparr>))"
  using lemondas_ciklus_elso[OF el, of m f utana]
  by (simp add: foglalas_lemondasa_def fs split: prod.splits)

lemma lemondas_ciklus_fej:
  assumes "foglalas_id f = fid" "f_statusz f = Aktiv" "py_int (ar f) = Inr p"
  shows "lemondas_ciklus fid m (f # utana)
         = (if lower (strip m) = ''i''
            then (case py_int (fmul (ar f) lit_0_7) of
                    Inl e \<Rightarrow> (Osszeomlas e, f\<lparr> f_statusz := Lemondva \<rparr> # utana)
                  | Inr n \<Rightarrow> (LemondasSikeres (fmul (ar f) lit_0_7) n,
                              f\<lparr> f_statusz := Lemondva \<rparr> # utana))
            else (LemondasMegszakitva, f # utana))"
  using assms by (auto simp: JegyFoglalas_str_def Let_def split: sum.splits)




lemma strip_upper_pelda: "upper (strip ''AB234'') = ''AB234''" "lower (strip ''i'') = ''i''"
  by code_simp+


lemma py_int_11200: "py_int (Finite 11200) = Inr 11200"
  by simp

lemma foglalas_lemondasa_megerositve:
  assumes fs: "foglalasok self = elotte @ f # utana"
    and el: "\<forall>g \<in> set elotte. \<not> (foglalas_id g = upper (strip id_be) \<and> f_statusz g = Aktiv)"
    and fid: "foglalas_id f = upper (strip id_be)"
    and akt: "f_statusz f = Aktiv"
    and pr: "py_int (ar f) = Inr p"
    and m: "lower (strip m) = ''i''"
    and n: "py_int (fmul (ar f) lit_0_7) = Inr n"
  shows "foglalas_lemondasa self id_be m
         = (LemondasSikeres (fmul (ar f) lit_0_7) n,
            self\<lparr> foglalasok := elotte @ f\<lparr> f_statusz := Lemondva \<rparr> # utana \<rparr>)"
  unfolding foglalas_lemondasa_elso[OF fs el] lemondas_ciklus_fej[OF fid akt pr]
  by (simp add: m n)

lemma foglalas_lemondasa_nem_talalhato:
  assumes "foglalasok self \<noteq> []"
    and "\<forall>g \<in> set (foglalasok self). \<not> (foglalas_id g = upper (strip id_be) \<and> f_statusz g = Aktiv)"
  shows "foglalas_lemondasa self id_be m = (NemTalalhato, self)"
  using assms lemondas_ciklus_nincs[OF assms(2), of m]
  by (simp add: foglalas_lemondasa_def)

lemma second_cancel_not_found_when_unique:
  assumes fs: "foglalasok self = elotte @ f # utana"
    and uniq: "\<forall>g \<in> set elotte \<union> set utana. foglalas_id g \<noteq> upper (strip id_be)"
    and fid: "foglalas_id f = upper (strip id_be)"
    and akt: "f_statusz f = Aktiv"
    and pr: "py_int (ar f) = Inr p"
    and m: "lower (strip m) = ''i''"
    and n: "py_int (fmul (ar f) lit_0_7) = Inr n"
    and s': "self' = self\<lparr> foglalasok := elotte @ f\<lparr> f_statusz := Lemondva \<rparr> # utana \<rparr>"
  shows "foglalas_lemondasa self id_be m = (LemondasSikeres (fmul (ar f) lit_0_7) n, self')
         \<and> foglalas_lemondasa self' id_be m2 = (NemTalalhato, self')"
proof -
  have el: "\<forall>g \<in> set elotte. \<not> (foglalas_id g = upper (strip id_be) \<and> f_statusz g = Aktiv)"
    using uniq by auto
  have 1: "foglalas_lemondasa self id_be m = (LemondasSikeres (fmul (ar f) lit_0_7) n, self')"
    unfolding s' by (rule foglalas_lemondasa_megerositve[OF fs el fid akt pr m n])
  have 2: "foglalas_lemondasa self' id_be m2 = (NemTalalhato, self')"
    by (rule foglalas_lemondasa_nem_talalhato) (use uniq in \<open>auto simp: s'\<close>)
  from 1 2 show ?thesis by simp
qed

lemma jegy_foglalas_lemondva:
  assumes "jegy_foglalas self v n now rnd = Some (k, self')"
    and "i < length (foglalasok self)" "f_statusz (foglalasok self ! i) = Lemondva"
  shows "i < length (foglalasok self') \<and> f_statusz (foglalasok self' ! i) = Lemondva"
  using jegy_foglalas_cases[OF assms(1)] assms(2,3) by (auto simp: nth_append)

lemma foglalas_lemondasa_lemondva:
  assumes "foglalas_lemondasa self ib m = (k, self')"
    and "i < length (foglalasok self)" "f_statusz (foglalasok self ! i) = Lemondva"
  shows "i < length (foglalasok self') \<and> f_statusz (foglalasok self' ! i) = Lemondva"
proof (cases "foglalasok self = []")
  case True
  with assms show ?thesis by simp
next
  case False
  with assms(1) have "foglalasok self' = snd (lemondas_ciklus (upper (strip ib)) m (foglalasok self))"
    by (auto simp: foglalas_lemondasa_def split: prod.splits)
  with lemondas_ciklus_lemondva[OF assms(2,3)] show ?thesis by simp
qed

lemma menu_lemondva:
  assumes "menu self m = Some (k, self')"
    and "i < length (foglalasok self)" "f_statusz (foglalasok self ! i) = Lemondva"
  shows "i < length (foglalasok self') \<and> f_statusz (foglalasok self' ! i) = Lemondva"
proof (cases m)
  case (M1 v n now rnd)
  with assms show ?thesis by (auto dest: jegy_foglalas_lemondva)
next
  case (M2 ib mm)
  with assms show ?thesis by (auto dest: foglalas_lemondasa_lemondva)
next
  case (M4 be now)
  with assms show ?thesis
    by (auto simp: uj_jarat_hozzaadasa_def Let_def split: option.splits sum.splits if_splits)
qed (use assms in \<open>auto simp: foglalasok_listazasa_def jaratok_listazasa_def rendszer_allapota_def
      Let_def split: if_splits option.splits sum.splits\<close>)

lemma cancelled_stays_cancelled:
  assumes "menu_ciklus self ms = Some (ks, self')"
    and "i < length (foglalasok self)" "f_statusz (foglalasok self ! i) = Lemondva"
  shows "i < length (foglalasok self') \<and> f_statusz (foglalasok self' ! i) = Lemondva"
  using assms
proof (induction ms arbitrary: self ks)
  case Nil
  then show ?case by simp
next
  case (Cons m ms)
  from Cons.prems(1) obtain k s1 where m: "menu self m = Some (k, s1)"
    by (auto split: option.splits)
  note s1 = menu_lemondva[OF m Cons.prems(2,3)]
  show ?case
  proof (cases "vege k")
    case True
    with Cons.prems(1) m have "self' = s1" by simp
    with s1 show ?thesis by simp
  next
    case False
    with Cons.prems(1) m obtain ks' where "menu_ciklus s1 ms = Some (ks', self')"
      by (auto split: option.splits)
    from Cons.IH[OF this] s1 show ?thesis by blast
  qed
qed

lemma upper_strip_aa000: "upper (strip ''aa000'') = ''AA000''"
  by code_simp





lemma jaratszam_init [simp]:
  "jaratszam (BelfoldiJarat_init jsz ind cel a legi d now) = jsz"
  "jaratszam (NemzetkoziJarat_init jsz ind cel a legi d now) = jsz"
  by (simp_all add: BelfoldiJarat_init_def NemzetkoziJarat_init_def Jarat_init_def)








section \<open>The claims\<close>

subsection \<open>Adding a flight to the airline\<close>

text \<open>
  Claim C5. For every airline and every flight, \<open>jarat_hozzaadasa\<close> raises the
  \<open>ValueError\<close> of a flight number that exists already when some flight of the
  airline has the number of the new one, and the raise comes before any change of the
  list; otherwise it appends the flight at the end, so the flights that were there
  are the first ones of the new list, in their order.
\<close>

theorem jarat_hozzaadasa_duplicate_or_append:
  "((\<exists>j \<in> set (jaratok self). jaratszam j = jaratszam jarat) \<longrightarrow>
      jarat_hozzaadasa self jarat = Inl (ValueError_jaratszam_letezik (jaratszam jarat)))
   \<and> (\<not> (\<exists>j \<in> set (jaratok self). jaratszam j = jaratszam jarat) \<longrightarrow>
      jarat_hozzaadasa self jarat = Inr (self\<lparr> jaratok := jaratok self @ [jarat] \<rparr>)
      \<and> take (length (jaratok self)) (jaratok (self\<lparr> jaratok := jaratok self @ [jarat] \<rparr>))
          = jaratok self)"
  by (simp add: jarat_hozzaadasa_def list_ex_iff)

theorem jarat_hozzaadasa_duplicate_or_append_witness:
  "(\<exists>j \<in> set (jaratok pelda_legitarsasag). jaratszam j = jaratszam pelda_jarat)
   \<and> jarat_hozzaadasa pelda_legitarsasag pelda_jarat = Inl (ValueError_jaratszam_letezik ''WIZ102'')
   \<and> \<not> (\<exists>j \<in> set (jaratok (Legitarsasag_init ''Wizz Air Hungary'')).
           jaratszam j = jaratszam pelda_jarat)
   \<and> jarat_hozzaadasa (Legitarsasag_init ''Wizz Air Hungary'') pelda_jarat = Inr pelda_legitarsasag"
  using jarat_hozzaadasa_duplicate_or_append [of pelda_legitarsasag pelda_jarat]
        jarat_hozzaadasa_duplicate_or_append [of "Legitarsasag_init ''Wizz Air Hungary''" pelda_jarat]
  by (simp add: pelda_legitarsasag_def Legitarsasag_init_def pelda_jarat_eq)

subsection \<open>A passenger name that is too short\<close>



subsection \<open>The status of a flight\<close>

text \<open>
  Claim C4. A flight constructed with a date strictly after the clock reading of its
  construction has the status \<open>AKTIV\<close>, and with any other date the status
  \<open>INAKTIV\<close>; and whatever turns of the menu follow, every flight of the system is
  still at its place in the list with the status it had.
\<close>

theorem status_fixed_at_construction:
  "statusz (BelfoldiJarat_init jsz ind cel a legi d now) = (if dt_less now d then AKTIV else INAKTIV)
   \<and> statusz (NemzetkoziJarat_init jsz ind cel a legi d now) = (if dt_less now d then AKTIV else INAKTIV)
   \<and> (menu_ciklus self ms = Some (ks, self') \<longrightarrow>
        (\<forall>n < length (jaratai self).
            n < length (jaratai self') \<and> statusz (jaratai self' ! n) = statusz (jaratai self ! n)))"
proof -
  have "\<forall>n < length (jaratai self).
            n < length (jaratai self') \<and> statusz (jaratai self' ! n) = statusz (jaratai self ! n)"
    if "menu_ciklus self ms = Some (ks, self')"
  proof -
    from menu_ciklus_jaratai[OF that] obtain ujak where "jaratai self' = jaratai self @ ujak"
      by blast
    then show ?thesis by (simp add: nth_append)
  qed
  then show ?thesis by (simp add: BelfoldiJarat_init_def NemzetkoziJarat_init_def Jarat_init_def)
qed

theorem status_fixed_at_construction_witness:
  "dt_less (Datetime 2025 1 1 12 0 0 0) (Datetime 2025 6 10 0 0 0 0)
   \<and> statusz pelda_jarat = AKTIV
   \<and> menu_ciklus pelda_rendszer
         [M4 pelda_bemenet (Datetime 2025 2 3 0 0 0 0),
          M1 (Some 1) ''Kiss Anna'' (Datetime 2025 7 2 0 0 0 0) (\<lambda>n. n),
          M6]
       = Some ([JaratHozzaadva (AKTIV, ''WIZ201'', ''Budapest'', ''London'',
                      ''Nemzetk'' @ [CHR 0xF6] @ ''zi'', Datetime 2025 6 15 0 0 0 0, 65000),
                DatumElmult,
                Allapot (Some (''Wizz Air Hungary'', 2, 2, 1, 1)) 0 0 0],
               pelda_rendszer_2)
   \<and> 0 < length (jaratai pelda_rendszer)
   \<and> 0 < length (jaratai pelda_rendszer_2)
   \<and> statusz (jaratai pelda_rendszer_2 ! 0) = statusz (jaratai pelda_rendszer ! 0)"
  using status_fixed_at_construction
          [of "''WIZ102''" "''Budapest''" "''Szeged''" "Finite 20000" "''Wizz Air''"
              "Datetime 2025 6 10 0 0 0 0" "Datetime 2025 1 1 12 0 0 0"
              pelda_rendszer
              "[M4 pelda_bemenet (Datetime 2025 2 3 0 0 0 0),
                M1 (Some 1) ''Kiss Anna'' (Datetime 2025 7 2 0 0 0 0) (\<lambda>n. n),
                M6]"
              "[JaratHozzaadva (AKTIV, ''WIZ201'', ''Budapest'', ''London'',
                      ''Nemzetk'' @ [CHR 0xF6] @ ''zi'', Datetime 2025 6 15 0 0 0 0, 65000),
                DatumElmult,
                Allapot (Some (''Wizz Air Hungary'', 2, 2, 1, 1)) 0 0 0]"
              pelda_rendszer_2]
        menu_pelda
  by (simp add: pelda_jarat_def dt_less_def jaratai_def pelda_rendszer_def
      pelda_legitarsasag_def)

subsection \<open>The demo data\<close>

text \<open>
  Claim C3, as amended. When the clock is not before 1 January 2023 at the construction
  of the first flight and is before 10 June 2025 and 15 June 2025 at the construction
  of the second and the third, the demo data are three flights in this order: the
  inactive domestic WIZ001 of 1 January 2023, the active domestic WIZ102 at the price
  16000 and the active international WIZ201 at the price 65000; and six active
  bookings, two of WIZ102 and then four of WIZ201; and the status report shows 3
  flights, 2 active, 2 domestic, 1 international, 6 bookings, 6 active, 0 cancelled.
\<close>

theorem seed_data_before_departures:
  assumes "\<not> dt_less now1 (Datetime 2023 1 1 0 0 0 0)"
    and "dt_less now2 (Datetime 2025 6 10 0 0 0 0)"
    and "dt_less now3 (Datetime 2025 6 15 0 0 0 0)"
  shows "\<exists>self. init_test_adatok Rendszer_init rnd now1 now2 now3 = Inr self
    \<and> map (\<lambda>j. (jaratszam j, osztaly j, datum j, jegyar j, statusz j)) (jaratai self)
        = [(''WIZ001'', BelfoldiJarat, Datetime 2023 1 1 0 0 0 0, Finite 12000, INAKTIV),
           (''WIZ102'', BelfoldiJarat, Datetime 2025 6 10 0 0 0 0, Finite 16000, AKTIV),
           (''WIZ201'', NemzetkoziJarat, Datetime 2025 6 15 0 0 0 0, Finite 65000, AKTIV)]
    \<and> map (\<lambda>f. (f_jaratszam f, f_statusz f)) (foglalasok self)
        = [(''WIZ102'', Aktiv), (''WIZ102'', Aktiv), (''WIZ201'', Aktiv), (''WIZ201'', Aktiv),
           (''WIZ201'', Aktiv), (''WIZ201'', Aktiv)]
    \<and> fst (rendszer_allapota self) = Allapot (Some (''Wizz Air Hungary'', 3, 2, 2, 1)) 6 6 0"
  using assms
  by (simp add: init_test_adatok_eq Rendszer_init_def teszt_jaratok_def jaratai_def
      JegyFoglalas_init_def rendszer_allapota_def)

theorem seed_data_before_departures_witness:
  "\<not> dt_less (Datetime 2025 5 20 8 0 0 0) (Datetime 2023 1 1 0 0 0 0)
   \<and> dt_less (Datetime 2025 5 20 8 0 0 0) (Datetime 2025 6 10 0 0 0 0)
   \<and> dt_less (Datetime 2025 5 20 8 0 0 0) (Datetime 2025 6 15 0 0 0 0)
   \<and> futtatas_kimenet sorban (Datetime 2025 5 20 8 0 0 0) (Datetime 2025 5 20 8 0 0 0)
       (Datetime 2025 5 20 8 0 0 0) [M6]
     = Some (Inr [Allapot (Some (''Wizz Air Hungary'', 3, 2, 2, 1)) 6 6 0])"
proof -
  have h: "\<not> dt_less (Datetime 2025 5 20 8 0 0 0) (Datetime 2023 1 1 0 0 0 0)"
    "dt_less (Datetime 2025 5 20 8 0 0 0) (Datetime 2025 6 10 0 0 0 0)"
    "dt_less (Datetime 2025 5 20 8 0 0 0) (Datetime 2025 6 15 0 0 0 0)"
    by (simp_all add: dt_less_def)
  from seed_data_before_departures [OF h, of sorban]
  obtain self where
    "init_test_adatok Rendszer_init sorban (Datetime 2025 5 20 8 0 0 0)
       (Datetime 2025 5 20 8 0 0 0) (Datetime 2025 5 20 8 0 0 0) = Inr self"
    "fst (rendszer_allapota self) = Allapot (Some (''Wizz Air Hungary'', 3, 2, 2, 1)) 6 6 0"
    by blast
  then have "futtatas_kimenet sorban (Datetime 2025 5 20 8 0 0 0) (Datetime 2025 5 20 8 0 0 0)
       (Datetime 2025 5 20 8 0 0 0) [M6]
     = Some (Inr [Allapot (Some (''Wizz Air Hungary'', 3, 2, 2, 1)) 6 6 0])"
    by (simp add: futtatas_kimenet_def futtatas_def rendszer_allapota_def)
  with h show ?thesis by simp
qed

text \<open>
  The claim as it was stated, with no condition on the clock, fails: a run started on
  4 November 2026 reports no active flight, since both dates of 2025 are past.
\<close>

theorem seed_data_after_departures_counterexample:
  "futtatas_kimenet sorban (Datetime 2026 11 4 9 30 0 0) (Datetime 2026 11 4 9 30 0 0)
       (Datetime 2026 11 4 9 30 0 0) [M6]
     = Some (Inr [Allapot (Some (''Wizz Air Hungary'', 3, 0, 2, 1)) 6 6 0])"
  by (simp add: futtatas_kimenet_def futtatas_def init_test_adatok_eq Rendszer_init_def
      teszt_jaratok_def JegyFoglalas_init_def rendszer_allapota_def dt_less_def)

subsection \<open>Identifiers of the bookings\<close>

text \<open>
  Claim C1. The identifiers of the bookings of one run should be pairwise distinct.
  The six bookings of the demo data take their identifiers as drawn, with no look at
  the ones drawn before: when every draw gives the index 0, all six bookings have the
  identifier AA000.
\<close>

theorem seed_ids_collide:
  "(case init_test_adatok Rendszer_init nulla (Datetime 2025 5 20 8 0 0 0)
           (Datetime 2025 5 20 8 0 0 0) (Datetime 2025 5 20 8 0 0 0) of
      Inl e \<Rightarrow> []
    | Inr self \<Rightarrow> map foglalas_id (foglalasok self))
   = [''AA000'', ''AA000'', ''AA000'', ''AA000'', ''AA000'', ''AA000'']"
  by (simp add: init_test_adatok_eq Rendszer_init_def JegyFoglalas_init_def generate_nulla)

subsection \<open>Booking a flight whose date has passed\<close>

text \<open>
  Claim C2, as amended. In \<open>jegy_foglalas\<close>, when the list of the active flights was
  printed and the flight selected has a date strictly before the clock reading of the
  date check, the operation prints the message of a date that has passed and leaves
  the system as it was, so no booking is made. A date equal to the clock reading
  passes the check.
\<close>

theorem jegy_foglalas_past_date_rejected:
  assumes l: "legitarsasag self = Some l"
    and pr: "mind_str Jarat_str (filter (\<lambda>j. statusz j = AKTIV) (jaratok l)) = Inr sorok"
    and v: "1 \<le> v" "v \<le> int (length (filter (\<lambda>j. statusz j = AKTIV) (jaratok l)))"
    and d: "dt_less (datum (filter (\<lambda>j. statusz j = AKTIV) (jaratok l) ! nat (v - 1))) now"
  shows "jegy_foglalas self (Some v) nev_be now rnd = Some (DatumElmult, self)"
proof -
  let ?aktiv = "filter (\<lambda>j. statusz j = AKTIV) (jaratok l)"
  have ne: "?aktiv \<noteq> []" using v by auto
  then have ne2: "jaratok l \<noteq> []" by auto
  have "?aktiv ! nat (v - 1) \<in> set ?aktiv" using v by (intro nth_mem) auto
  from mind_str_elem[OF pr this] obtain sor where "Jarat_str (?aktiv ! nat (v - 1)) = Inr sor"
    by blast
  then obtain p where p: "py_int (jegyar (?aktiv ! nat (v - 1))) = Inr p"
    by (auto simp: Jarat_str_def split: sum.splits)
  show ?thesis
    using v d ne ne2 by (simp add: jegy_foglalas_def l pr p Let_def)
qed

theorem jegy_foglalas_past_date_rejected_witness:
  "legitarsasag olcso_rendszer_0 = Some \<lparr> nev = ''Wizz Air Hungary'', jaratok = [olcso_jarat] \<rparr>
   \<and> mind_str Jarat_str
        (filter (\<lambda>j. statusz j = AKTIV) (jaratok \<lparr> nev = ''Wizz Air Hungary'', jaratok = [olcso_jarat] \<rparr>))
       = Inr [(AKTIV, ''WIZ300'', ''Budapest'', ''Szeged'', ''Belf'' @ [CHR 0xF6] @ ''ldi'',
               Datetime 2025 6 10 0 0 0 0, 8)]
   \<and> dt_less (datum olcso_jarat) (Datetime 2025 6 10 0 0 0 1)
   \<and> jegy_foglalas olcso_rendszer_0 (Some 1) ''Kiss Anna'' (Datetime 2025 6 10 0 0 0 1) sorban
       = Some (DatumElmult, olcso_rendszer_0)"
proof -
  have l: "legitarsasag olcso_rendszer_0
           = Some \<lparr> nev = ''Wizz Air Hungary'', jaratok = [olcso_jarat] \<rparr>"
    by (simp add: olcso_rendszer_0_def)
  have pr: "mind_str Jarat_str
        (filter (\<lambda>j. statusz j = AKTIV) (jaratok \<lparr> nev = ''Wizz Air Hungary'', jaratok = [olcso_jarat] \<rparr>))
       = Inr [(AKTIV, ''WIZ300'', ''Budapest'', ''Szeged'', ''Belf'' @ [CHR 0xF6] @ ''ldi'',
               Datetime 2025 6 10 0 0 0 0, 8)]"
    by (simp add: olcso_jarat_eq Jarat_str_def)
  have d: "dt_less (datum olcso_jarat) (Datetime 2025 6 10 0 0 0 1)"
    by (simp add: olcso_jarat_eq dt_less_def)
  have "jegy_foglalas olcso_rendszer_0 (Some 1) ''Kiss Anna'' (Datetime 2025 6 10 0 0 0 1) sorban
       = Some (DatumElmult, olcso_rendszer_0)"
    by (rule jegy_foglalas_past_date_rejected [OF l pr]) (simp_all add: olcso_jarat_eq dt_less_def)
  with l pr d show ?thesis by simp
qed

text \<open>
  The claim as it was stated also rejects a date equal to the clock reading. The check
  is \<open>datum < datetime.now()\<close>: at the very instant of the flight's date, the
  date is not strictly after the clock, and the booking is made.
\<close>

theorem jegy_foglalas_date_equal_now_counterexample:
  "\<not> dt_less (Datetime 2025 6 10 0 0 0 0) (datum olcso_jarat)
   \<and> jegy_foglalas olcso_rendszer_0 (Some 1) ''Kiss Anna'' (Datetime 2025 6 10 0 0 0 0) sorban
       = Some (FoglalasLetrehozva ''AB234'' 8, olcso_rendszer)
   \<and> foglalasok olcso_rendszer_0 = []
   \<and> foglalasok olcso_rendszer = [olcso_foglalas]"
proof -
  have a: "\<not> dt_less (Datetime 2025 6 10 0 0 0 0) (datum olcso_jarat)"
    by (simp add: olcso_jarat_eq dt_less_def)
  have b: "foglalasok olcso_rendszer_0 = []" by (simp add: olcso_rendszer_0_def)
  have c: "foglalasok olcso_rendszer = [olcso_foglalas]" by (simp add: olcso_rendszer_def)
  from a jegy_foglalas_olcso b c show ?thesis by blast
qed

subsection \<open>Cancelling a booking\<close>




text \<open>
  Claim C6. A confirmed cancellation of an active booking sets it to \<open>Lemondva\<close>, a
  second cancellation with the same identifier should find no active booking, and a
  cancelled booking is never active again. The last part holds (lemma
  \<open>cancelled_stays_cancelled\<close>), and so does the second when no other booking has the
  identifier (lemma \<open>second_cancel_not_found_when_unique\<close>). But the demo data can
  hold two bookings of one identifier: with all draws 0 the six bookings are AA000,
  and the second cancellation of AA000 cancels the second booking and reports a second
  refund.
\<close>

theorem double_cancel_with_colliding_ids:
  "futtatas_kimenet nulla (Datetime 2025 5 20 8 0 0 0) (Datetime 2025 5 20 8 0 0 0)
       (Datetime 2025 5 20 8 0 0 0) [M2 ''aa000'' ''i'', M2 ''aa000'' ''i'', M6]
     = Some (Inr [LemondasSikeres (Finite 11200) 11200,
                  LemondasSikeres (Finite 11200) 11200,
                  Allapot (Some (''Wizz Air Hungary'', 3, 2, 2, 1)) 6 4 2])"
proof -
  define D where "D = Datetime 2025 5 20 8 0 0 0"
  define J where "J = teszt_jaratok D D D"
  define b1 where "b1 = JegyFoglalas_init (J ! 1) (''Nagy J'' @ [CHR 0xE1] @ ''nos'') nulla 0"
  define b2 where
    "b2 = JegyFoglalas_init (J ! 1) (''Kov'' @ [CHR 0xE1] @ ''cs B'' @ [CHR 0xE9] @ ''la'') nulla 5"
  define rest where
    "rest = [JegyFoglalas_init (J ! 2) (''Szab'' @ [CHR 0xF3, CHR 0x20, CHR 0xC9] @ ''va'') nulla 10,
             JegyFoglalas_init (J ! 2) (''Kiss Zolt'' @ [CHR 0xE1] @ ''n'') nulla 15,
             JegyFoglalas_init (J ! 2) (''T'' @ [CHR 0xF3] @ ''th M'' @ [CHR 0xE1] @ ''ria'') nulla 20,
             JegyFoglalas_init (J ! 2) (''Horv'' @ [CHR 0xE1] @ ''th P'' @ [CHR 0xE9] @ ''ter'') nulla 25]"
  define S0 where "S0 = \<lparr> legitarsasag = Some \<lparr> nev = ''Wizz Air Hungary'', jaratok = J \<rparr>,
                          foglalasok = [] @ b1 # b2 # rest,
                          existing_foglalas_ids = {''AA000''} \<rparr>"
  define S1 where "S1 = S0\<lparr> foglalasok := [] @ b1\<lparr> f_statusz := Lemondva \<rparr> # b2 # rest \<rparr>"
  define S2 where "S2 = S1\<lparr> foglalasok := [b1\<lparr> f_statusz := Lemondva \<rparr>]
                                   @ b2\<lparr> f_statusz := Lemondva \<rparr> # rest \<rparr>"
  have init: "init_test_adatok Rendszer_init nulla D D D = Inr S0"
    by (simp add: init_test_adatok_eq Rendszer_init_def S0_def generate_nulla b1_def b2_def
        rest_def J_def)
  have b1: "foglalas_id b1 = ''AA000''" "f_statusz b1 = Aktiv" "ar b1 = Finite 16000"
    by (simp_all add: b1_def J_def JegyFoglalas_init_def generate_nulla teszt_jaratok_def)
  have b2: "foglalas_id b2 = ''AA000''" "f_statusz b2 = Aktiv" "ar b2 = Finite 16000"
    by (simp_all add: b2_def J_def JegyFoglalas_init_def generate_nulla teszt_jaratok_def)
  have m: "lower (strip ''i'') = ''i''" by (rule strip_upper_pelda)
  have c1: "foglalas_lemondasa S0 ''aa000'' ''i''
            = (LemondasSikeres (fmul (ar b1) lit_0_7) 11200, S1)"
    unfolding S1_def
    by (rule foglalas_lemondasa_megerositve[where p = 16000])
       (simp_all add: S0_def upper_strip_aa000 b1 m mul_16000)
  have c2: "foglalas_lemondasa S1 ''aa000'' ''i''
            = (LemondasSikeres (fmul (ar b2) lit_0_7) 11200, S2)"
    unfolding S2_def
    by (rule foglalas_lemondasa_megerositve[where p = 16000])
       (simp_all add: S1_def S0_def upper_strip_aa000 b1 b2 m mul_16000)
  have c3: "rendszer_allapota S2 = (Allapot (Some (''Wizz Air Hungary'', 3, 2, 2, 1)) 6 4 2, S2)"
    by (simp add: rendszer_allapota_def S2_def S1_def S0_def J_def D_def teszt_jaratok_def
        dt_less_def b1 b2 rest_def JegyFoglalas_init_def)
  have "futtatas_kimenet nulla D D D [M2 ''aa000'' ''i'', M2 ''aa000'' ''i'', M6]
     = Some (Inr [LemondasSikeres (Finite 11200) 11200,
                  LemondasSikeres (Finite 11200) 11200,
                  Allapot (Some (''Wizz Air Hungary'', 3, 2, 2, 1)) 6 4 2])"
    unfolding futtatas_kimenet_def futtatas_def init
    by (simp add: c1 c2 c3 b1 b2 mul_16000)
  then show ?thesis by (simp only: D_def)
qed

subsection \<open>The flight number entered\<close>


end
